theory Spec2Isabelle
  imports Main "HOL-Library.Word" "HOL-Library.Multiset"
begin

unbundle bit_operations_syntax

section \<open>Machine types of the tester\<close>

text \<open>
  The C program fixes \<^verbatim>\<open>typedef double mfloat_t\<close>, \<^verbatim>\<open>typedef int mint_t\<close>,
  \<^verbatim>\<open>typedef long int64\<close> and \<^verbatim>\<open>typedef unsigned long uint64\<close> (an LP64 target).
  A double is modelled by its 64-bit pattern, which is what \<^verbatim>\<open>ud\<close> and \<^verbatim>\<open>about\<close> read
  through their unions; signed integers are words read through \<open>sint\<close>.
\<close>

type_synonym mfloat_t = "64 word"
type_synonym mint_t = "32 word"
type_synonym int64 = "64 word"
type_synonym uint64 = "64 word"

section \<open>IEEE-754 binary64 arithmetic on bit patterns\<close>

text \<open>
  Double arithmetic is IEEE-754 binary64 in the default rounding mode (round to nearest,
  ties to even), every operation rounded once to double (no extended intermediate
  precision, no fused multiply-add). A finite pattern denotes
  \<open>(-1)^sign * mant * 2^exp2\<close>; each operation computes the exact result on integers
  and rounds it with \<open>round_pack\<close>.
\<close>

definition sign_bit :: "mfloat_t \<Rightarrow> bool" where
  "sign_bit x = (2 ^ 63 \<le> unat x)"

definition expo :: "mfloat_t \<Rightarrow> nat" where
  "expo x = (unat x div 2 ^ 52) mod 2048"

definition frac :: "mfloat_t \<Rightarrow> nat" where
  "frac x = unat x mod 2 ^ 52"

definition isnan :: "mfloat_t \<Rightarrow> bool" where
  "isnan x = (expo x = 2047 \<and> frac x \<noteq> 0)"

definition isinf :: "mfloat_t \<Rightarrow> bool" where
  "isinf x = (expo x = 2047 \<and> frac x = 0)"

definition mant :: "mfloat_t \<Rightarrow> nat" where
  "mant x = (if expo x = 0 then frac x else 2 ^ 52 + frac x)"

definition exp2 :: "mfloat_t \<Rightarrow> int" where
  "exp2 x = (if expo x = 0 then 1 else int (expo x)) - 1075"

definition sval :: "mfloat_t \<Rightarrow> int" where
  "sval x = (if sign_bit x then - int (mant x) else int (mant x))"

text \<open>Number of binary digits of a natural number.\<close>

fun nbits :: "nat \<Rightarrow> nat" where
  "nbits n = (if n = 0 then 0 else Suc (nbits (n div 2)))"

declare nbits.simps [simp del]

definition pack :: "bool \<Rightarrow> nat \<Rightarrow> mfloat_t" where
  "pack s b = (if s then 2 ^ 63 else 0) + of_nat b"

text \<open>
  \<open>round_pack s m e\<close> is the double nearest to \<open>(-1)^s * m * 2^e\<close>, ties to even:
  \<open>q\<close> is the exponent of the last kept bit (at least that of the subnormals), \<open>M\<close> the
  rounded significand; a carry out of the significand moves into the exponent field, and
  an exponent field of 2047 or more is the overflow to infinity.
\<close>

definition round_pack :: "bool \<Rightarrow> nat \<Rightarrow> int \<Rightarrow> mfloat_t" where
  "round_pack s m e =
     (if m = 0 then pack s 0 else
      let q = max (int (nbits m) + e - 53) (- 1074);
          M = (if q \<le> e then m * 2 ^ nat (e - q)
               else let sh = nat (q - e); M0 = m div 2 ^ sh; r = m mod 2 ^ sh; h = 2 ^ (sh - 1)
                    in if h < r \<or> (r = h \<and> odd M0) then M0 + 1 else M0);
          b = nat (q + 1074) * 2 ^ 52 + M
      in pack s (if 2047 * 2 ^ 52 \<le> b then 2047 * 2 ^ 52 else b))"

text \<open>
  \<open>round_quot s n d e\<close> rounds \<open>(-1)^s * (n / d) * 2^e\<close>: the quotient is taken with more
  than 64 significant bits and a sticky last bit for a nonzero remainder.
\<close>

definition round_quot :: "bool \<Rightarrow> nat \<Rightarrow> nat \<Rightarrow> int \<Rightarrow> mfloat_t" where
  "round_quot s n d e =
     (let k = 64 + nbits d; q = (n * 2 ^ k) div d; r = (n * 2 ^ k) mod d
      in round_pack s (2 * q + (if r = 0 then 0 else 1)) (e - int k - 1))"

definition dnan :: mfloat_t where
  "dnan = 0x7FF8000000000000"

definition quiet :: "mfloat_t \<Rightarrow> mfloat_t" where
  "quiet x = x OR 0x0008000000000000"

text \<open>Unary minus flips the sign bit, of a NaN too.\<close>

definition fneg :: "mfloat_t \<Rightarrow> mfloat_t" where
  "fneg x = x + 0x8000000000000000"

definition fadd :: "mfloat_t \<Rightarrow> mfloat_t \<Rightarrow> mfloat_t" where
  "fadd x y =
     (if isnan x then quiet x else if isnan y then quiet y
      else if isinf x then (if isinf y \<and> sign_bit x \<noteq> sign_bit y then dnan else x)
      else if isinf y then y
      else let e = min (exp2 x) (exp2 y);
               S = sval x * 2 ^ nat (exp2 x - e) + sval y * 2 ^ nat (exp2 y - e)
           in if S = 0 then pack (sign_bit x \<and> sign_bit y) 0
              else round_pack (S < 0) (nat \<bar>S\<bar>) e)"

definition fsub :: "mfloat_t \<Rightarrow> mfloat_t \<Rightarrow> mfloat_t" where
  "fsub x y = (if isnan x then quiet x else if isnan y then quiet y else fadd x (fneg y))"

definition fmul :: "mfloat_t \<Rightarrow> mfloat_t \<Rightarrow> mfloat_t" where
  "fmul x y =
     (if isnan x then quiet x else if isnan y then quiet y
      else if isinf x \<or> isinf y then
        (if mant x = 0 \<or> mant y = 0 then dnan
         else pack (sign_bit x \<noteq> sign_bit y) (2047 * 2 ^ 52))
      else round_pack (sign_bit x \<noteq> sign_bit y) (mant x * mant y) (exp2 x + exp2 y))"

definition fdiv :: "mfloat_t \<Rightarrow> mfloat_t \<Rightarrow> mfloat_t" where
  "fdiv x y =
     (if isnan x then quiet x else if isnan y then quiet y
      else if isinf x then
        (if isinf y then dnan else pack (sign_bit x \<noteq> sign_bit y) (2047 * 2 ^ 52))
      else if isinf y then pack (sign_bit x \<noteq> sign_bit y) 0
      else if mant y = 0 then
        (if mant x = 0 then dnan else pack (sign_bit x \<noteq> sign_bit y) (2047 * 2 ^ 52))
      else round_quot (sign_bit x \<noteq> sign_bit y) (mant x) (mant y) (exp2 x - exp2 y))"

text \<open>
  Comparisons order the non-NaN patterns by \<open>fkey\<close>, which identifies the two zeros; every
  comparison with a NaN is false, so \<^verbatim>\<open>x != x\<close> holds exactly for a NaN.
\<close>

definition fkey :: "mfloat_t \<Rightarrow> int" where
  "fkey x = (if sign_bit x then - int (unat x mod 2 ^ 63) else int (unat x mod 2 ^ 63))"

definition feq :: "mfloat_t \<Rightarrow> mfloat_t \<Rightarrow> bool" where
  "feq x y = (\<not> isnan x \<and> \<not> isnan y \<and> fkey x = fkey y)"

definition flt :: "mfloat_t \<Rightarrow> mfloat_t \<Rightarrow> bool" where
  "flt x y = (\<not> isnan x \<and> \<not> isnan y \<and> fkey x < fkey y)"

text \<open>Conversion of an integer to double, and a decimal literal \<open>m * 10^(-k)\<close>.\<close>

definition i2d :: "int \<Rightarrow> mfloat_t" where
  "i2d n = round_pack (n < 0) (nat \<bar>n\<bar>) 0"

definition lit :: "nat \<Rightarrow> nat \<Rightarrow> mfloat_t" where
  "lit m k = round_quot False m (10 ^ k) 0"

text \<open>
  Conversion of a double to \<^verbatim>\<open>int\<close> truncates toward zero. When the truncated value is
  not representable in the 32-bit \<^verbatim>\<open>int\<close> (or the operand is a NaN or an infinity) the
  C conversion has no defined result: \<open>None\<close>.
\<close>

definition trunc_mag :: "mfloat_t \<Rightarrow> nat" where
  "trunc_mag x =
     (if 0 \<le> exp2 x then mant x * 2 ^ nat (exp2 x) else mant x div 2 ^ nat (- exp2 x))"

definition d2i :: "mfloat_t \<Rightarrow> mint_t option" where
  "d2i x =
     (if expo x = 2047 then None
      else let v = (if sign_bit x then - int (trunc_mag x) else int (trunc_mag x))
           in if - (2 ^ 31) \<le> v \<and> v < 2 ^ 31 then Some (of_int v) else None)"

text \<open>The libm functions \<^verbatim>\<open>nextafter\<close> and \<^verbatim>\<open>copysign\<close>, which act on the pattern.\<close>

definition nextafter :: "mfloat_t \<Rightarrow> mfloat_t \<Rightarrow> mfloat_t" where
  "nextafter x y =
     (if isnan x then quiet x else if isnan y then quiet y
      else if feq x y then y
      else if fkey x = 0 then (if flt x y then 1 else 0x8000000000000001)
      else if flt x y = (\<not> sign_bit x) then x + 1 else x - 1)"

definition copysign :: "mfloat_t \<Rightarrow> mfloat_t \<Rightarrow> mfloat_t" where
  "copysign x y = (x AND 0x7FFFFFFFFFFFFFFF) OR (y AND 0x8000000000000000)"

text \<open>The literal \<^verbatim>\<open>0.5\<close>.\<close>

definition d_half :: mfloat_t where
  "d_half = lit 5 1"

section \<open>The trigonometric kernel \<^verbatim>\<open>sncs1cs\<close>\<close>

record sincos1cos =
  sin :: mfloat_t
  cos :: mfloat_t
  omc :: mfloat_t

definition fourOverPi :: mfloat_t where
  "fourOverPi = lit 127323954473516268615 20"

definition sc :: "mfloat_t list" where
  "sc = [lit 158962301576546568060 30,
         fneg (lit 250507477628578072866 28),
         lit 275573136213857245213 26,
         fneg (lit 198412698295895385996 24),
         lit 833333333332211858878 23,
         fneg (lit 166666666666666307295 21)]"

definition cc :: "mfloat_t list" where
  "cc = [fneg (lit 113585365213876817300 31),
         lit 208757008419747316778 29,
         fneg (lit 275573141792967388112 27),
         lit 248015872888517045348 25,
         fneg (lit 138888888888730564116 23),
         lit 416666666666665929218 22]"

definition DP1 :: mfloat_t where
  "DP1 = lit 785398125648498535156 21"

definition DP2 :: mfloat_t where
  "DP2 = lit 377489470793079817668 28"

definition DP3 :: mfloat_t where
  "DP3 = lit 269515142907905952645 35"

text \<open>
  The octant index after \<^verbatim>\<open>j = (mint_t)(x * fourOverPi)\<close>: an odd \<open>j\<close> is moved up by one
  together with \<open>y\<close>; \<^verbatim>\<open>j += 1\<close> at \<open>INT_MAX\<close> is a signed overflow and has no defined
  result.
\<close>

definition octant :: "mfloat_t \<Rightarrow> (mint_t \<times> mfloat_t) option" where
  "octant x =
     (case d2i (fmul x fourOverPi) of
        None \<Rightarrow> None
      | Some j \<Rightarrow>
          (let y = i2d (sint j)
           in if j AND 1 \<noteq> 0
              then (if sint j = 2 ^ 31 - 1 then None else Some (j + 1, fadd y (i2d 1)))
              else Some (j, y)))"

text \<open>The statement \<^verbatim>\<open>r.sin = -r.sin\<close>.\<close>

definition neg_sin :: "sincos1cos \<Rightarrow> sincos1cos" where
  "neg_sin r = r\<lparr>sin := fneg (sin r)\<rparr>"

text \<open>
  The part of \<^verbatim>\<open>sncs1cs\<close> after the special values and the sign have been taken off:
  \<open>sign0\<close> is \<^verbatim>\<open>sign\<close> and \<open>x\<close> the non-negative argument at line 138 of the source.
\<close>

definition sncs1cs_reduce :: "mint_t \<Rightarrow> mfloat_t \<Rightarrow> sincos1cos option" where
  "sncs1cs_reduce sign0 x =
     (case octant x of
        None \<Rightarrow> None
      | Some (j0, y) \<Rightarrow>
          (let j1 = j0 AND 7;
               refl = (3 < sint j1);
               sign = (if refl then - sign0 else sign0);
               csign1 = (if refl then - 1 else 1 :: mint_t);
               j = (if refl then j1 - 4 else j1);
               csign = (if 1 < sint j then - csign1 else csign1);
               z = fsub (fsub (fsub x (fmul y DP1)) (fmul y DP2)) (fmul y DP3);
               zz = fmul z z;
               s = fadd z (fmul (fmul zz z)
                     (fadd (fmul (fadd (fmul (fadd (fmul (fadd (fmul (fadd (fmul
                        (sc ! 0) zz) (sc ! 1)) zz) (sc ! 2)) zz) (sc ! 3)) zz) (sc ! 4)) zz)
                        (sc ! 5)));
               c = fsub (fmul d_half zz) (fmul (fmul zz zz)
                     (fadd (fmul (fadd (fmul (fadd (fmul (fadd (fmul (fadd (fmul
                        (cc ! 0) zz) (cc ! 1)) zz) (cc ! 2)) zz) (cc ! 3)) zz) (cc ! 4)) zz)
                        (cc ! 5)));
               r = (if j = 1 \<or> j = 2 then
                      (let s1 = (if sint csign < 0 then fneg s else s);
                           rcos = s1;
                           rsin = fsub (i2d 1) c;
                           romc = fsub (i2d 1) rcos
                       in \<lparr>sin = rsin, cos = rcos, omc = romc\<rparr>)
                    else if sint csign < 0 then
                      (let rcos = fsub c (i2d 1)
                       in \<lparr>sin = s, cos = rcos, omc = fsub (i2d 1) rcos\<rparr>)
                    else \<lparr>sin = s, cos = fsub (i2d 1) c, omc = c\<rparr>)
           in Some (if sint sign < 0 then neg_sin r else r)))"

definition sncs1cs :: "mfloat_t \<Rightarrow> sincos1cos option" where
  "sncs1cs x =
     (if feq x (i2d 0) then Some \<lparr>sin = x, cos = i2d 1, omc = i2d 0\<rparr>
      else if isnan x then Some \<lparr>sin = x, cos = x, omc = x\<rparr>
      else if isinf x then Some \<lparr>sin = fsub x x, cos = fsub x x, omc = fsub x x\<rparr>
      else if flt x (i2d 0) then sncs1cs_reduce (- 1) (fneg x)
      else sncs1cs_reduce 1 x)"

section \<open>Distance and scores\<close>

record funcVal =
  old :: mfloat_t
  new :: mfloat_t
  accurate :: mfloat_t

definition interesting :: "int64 \<Rightarrow> bool" where
  "interesting d = (d \<noteq> 0)"

text \<open>
  \<^verbatim>\<open>ud\<close>: the NaN test is \<^verbatim>\<open>x != x || y != y\<close>, the sentinel \<^verbatim>\<open>(int64)(~0UL >> 1)\<close>; the
  unsigned difference is computed modulo \<open>2^64\<close> and returned as \<^verbatim>\<open>int64\<close>.
\<close>

definition ud :: "mfloat_t \<Rightarrow> mfloat_t \<Rightarrow> int64" where
  "ud x y =
     (if \<not> feq x x \<or> \<not> feq y y then drop_bit 1 (NOT 0)
      else if x AND push_bit 63 1 = y AND push_bit 63 1 then
        (let a = x - y in if a AND push_bit 63 1 \<noteq> 0 then - a else a)
      else x - push_bit 63 1 + y)"

text \<open>
  \<^verbatim>\<open>quiteInteresting\<close> returns \<^verbatim>\<open>"better"\<close>, \<^verbatim>\<open>"worse "\<close> or \<^verbatim>\<open>nil\<close> (\<open>None\<close>). The \<^verbatim>\<open>int64\<close>
  differences are taken modulo \<open>2^64\<close>, as the two's-complement target computes them.
\<close>

definition quiteInteresting :: "funcVal \<Rightarrow> string option" where
  "quiteInteresting v =
     (let ac = ud (old v) (accurate v); bc = ud (new v) (accurate v); L = lit 1 7
      in if flt L (fdiv (i2d (sint (ac - bc))) (i2d (sint bc))) then Some ''better''
         else if flt L (fdiv (i2d (sint (bc - ac))) (i2d (sint ac))) then Some ''worse ''
         else None)"

text \<open>
  The loop of \<^verbatim>\<open>about\<close>: \<^verbatim>\<open>for (n = 1;; n++) { d >>= 1; if (d == 0) break; }\<close>. It runs on
  the absolute value of a difference of two patterns with equal sign and exponent fields,
  which is non-negative, so the shift is the logical one.
\<close>

function about_loop :: "int64 \<Rightarrow> nat \<Rightarrow> nat" where
  "about_loop d n = (if drop_bit 1 d = 0 then n else about_loop (drop_bit 1 d) (n + 1))"
  by pat_completeness auto
termination
proof (relation "measure (\<lambda>(d, n). unat d)")
  show "wf (measure (\<lambda>(d :: int64, n :: nat). unat d))"
    by simp
next
  fix d :: int64 and n :: nat
  assume nz: "drop_bit 1 d \<noteq> 0"
  then have "unat d \<noteq> 0"
    by (auto simp: unat_eq_zero)
  then have "unat d div 2 < unat d"
    by simp
  then show "((drop_bit 1 d, n + 1), (d, n)) \<in> measure (\<lambda>(d, n). unat d)"
    by (simp add: drop_bit_eq_div unat_div)
qed

fun dec_digits :: "nat \<Rightarrow> string" where
  "dec_digits n =
     (if n < 10 then [char_of (48 + n)] else dec_digits (n div 10) @ [char_of (48 + n mod 10)])"

declare dec_digits.simps [simp del]

text \<open>The conversion \<^verbatim>\<open>%2d\<close> of a non-negative number.\<close>

definition fmt_2d :: "nat \<Rightarrow> string" where
  "fmt_2d n = replicate (2 - length (dec_digits n)) (CHR '' '') @ dec_digits n"

definition about :: "mfloat_t \<Rightarrow> mfloat_t \<Rightarrow> string" where
  "about oldF newF =
     (if (oldF XOR newF) AND 0xfff0000000000000 \<noteq> 0 then ''Exponents or signs differ !''
      else let d0 = oldF - newF;
               d = (if sint d0 < 0 then - d0 else d0)
           in ''Mantissas differ in '' @ fmt_2d (about_loop d 1) @ '' bits'')"

record ifscor =
  iscor :: int64
  fscor :: mfloat_t

definition scoresOf :: "funcVal \<Rightarrow> ifscor" where
  "scoresOf v =
     (let ac = ud (old v) (accurate v); bc = ud (new v) (accurate v);
          r = \<lparr>iscor = ac - bc, fscor = i2d 0\<rparr>
      in r\<lparr>fscor := fdiv (i2d (sint (iscor r))) (i2d (sint bc))\<rparr>)"

definition isNull :: "funcVal \<Rightarrow> bool" where
  "isNull v = feq (old v) (new v)"

section \<open>Sampling and evaluation\<close>

definition FuncLimit :: nat where
  "FuncLimit = 3"

definition PointsInOneRange :: nat where
  "PointsInOneRange = 32"

definition funcNames :: "string list" where
  "funcNames = [''sin'', ''cos'', ''omc'']"

definition TMPLT :: string where
  "TMPLT = ''(%27.20e)$CNF'' @ [char_of (10 :: nat)]"

definition fricasFuncNames :: "string list" where
  "fricasFuncNames = [''cnf_sin'' @ TMPLT, ''cnf_cos'' @ TMPLT, ''cnf_1cs'' @ TMPLT]"

definition posInf :: mfloat_t where
  "posInf = fdiv (lit 10 1) (lit 0 1)"

text \<open>
  \<^verbatim>\<open>Range\<close>: the array \<^verbatim>\<open>a[PointsInOneRange][FuncLimit]\<close> and \<^verbatim>\<open>limits[2]\<close>. \<^verbatim>\<open>calloc\<close> hands
  out ranges whose bytes are all zero.
\<close>

record Range =
  range_a :: "funcVal list list"
  range_limits :: "mfloat_t list"

definition zero_funcVal :: funcVal where
  "zero_funcVal = \<lparr>old = 0, new = 0, accurate = 0\<rparr>"

definition zero_Range :: Range where
  "zero_Range =
     \<lparr>range_a = replicate PointsInOneRange (replicate FuncLimit zero_funcVal),
      range_limits = [0, 0]\<rparr>"

text \<open>
  What the program takes from outside its own source: \<^verbatim>\<open>sin\<close>, \<^verbatim>\<open>cos\<close> and \<^verbatim>\<open>sqrt\<close> of the
  C library, and the answer of the FriCAS process to a request. \<^verbatim>\<open>FricasFloatEval\<close> sees
  the requests made before (the process is one session), the command and the argument; a
  failed exchange answers with a NaN.
\<close>

record env =
  libm_sin :: "mfloat_t \<Rightarrow> mfloat_t"
  libm_cos :: "mfloat_t \<Rightarrow> mfloat_t"
  libm_sqrt :: "mfloat_t \<Rightarrow> mfloat_t"
  FricasFloatEval :: "(string \<times> mfloat_t) list \<Rightarrow> string \<Rightarrow> mfloat_t \<Rightarrow> mfloat_t"

text \<open>One line of the first section of the output, field by field.\<close>

record line =
  l_verdict :: string
  l_x :: mfloat_t
  l_func :: string
  l_about :: string
  l_diff :: int64
  l_old :: mfloat_t
  l_new :: mfloat_t
  l_accurate :: mfloat_t

text \<open>
  \<^verbatim>\<open>dat\<close> (the slice of ranges and the index \<^verbatim>\<open>i\<close>) with the two effects of the
  evaluation: the requests sent to FriCAS and the lines printed, both in order.
\<close>

record dat =
  funcData :: "Range list"
  dat_i :: nat
  fricas_calls :: "(string \<times> mfloat_t) list"
  stdout :: "line list"

definition get_cell :: "Range list \<Rightarrow> nat \<Rightarrow> nat \<Rightarrow> nat \<Rightarrow> funcVal" where
  "get_cell fd rn point fn = range_a (fd ! rn) ! point ! fn"

definition set_cell :: "Range list \<Rightarrow> nat \<Rightarrow> nat \<Rightarrow> nat \<Rightarrow> funcVal \<Rightarrow> Range list" where
  "set_cell fd rn point fn v =
     fd[rn := (fd ! rn)\<lparr>range_a :=
        (range_a (fd ! rn))[point := (range_a (fd ! rn) ! point)[fn := v]]\<rparr>]"

definition set_limit :: "Range list \<Rightarrow> nat \<Rightarrow> nat \<Rightarrow> mfloat_t \<Rightarrow> Range list" where
  "set_limit fd rn k x =
     fd[rn := (fd ! rn)\<lparr>range_limits := (range_limits (fd ! rn))[k := x]\<rparr>]"

text \<open>The body of the loop over the three functions in \<^verbatim>\<open>checkSinCosOmcInPoint\<close>.\<close>

definition check_func :: "env \<Rightarrow> nat \<Rightarrow> mfloat_t \<Rightarrow> funcVal list \<Rightarrow> nat \<Rightarrow> dat \<Rightarrow> dat" where
  "check_func E pointInRange x a i data =
     (let diff = ud (old (a ! i)) (new (a ! i))
      in if interesting diff then
           (let acc = FricasFloatEval E (fricas_calls data) (fricasFuncNames ! i) x;
                v = (a ! i)\<lparr>accurate := acc\<rparr>;
                data1 = data\<lparr>funcData := set_cell (funcData data) (dat_i data) pointInRange i v,
                             fricas_calls := fricas_calls data @ [(fricasFuncNames ! i, x)]\<rparr>
            in case quiteInteresting v of
                 None \<Rightarrow> data1
               | Some s \<Rightarrow>
                   data1\<lparr>stdout := stdout data1 @
                     [\<lparr>l_verdict = s, l_x = x, l_func = funcNames ! i,
                       l_about = about (old v) (new v), l_diff = diff,
                       l_old = old v, l_new = new v, l_accurate = accurate v\<rparr>]\<rparr>)
         else data)"

definition point_values :: "env \<Rightarrow> mfloat_t \<Rightarrow> sincos1cos \<Rightarrow> funcVal list" where
  "point_values E x sc1c =
     [\<lparr>old = libm_sin E x, new = sin sc1c, accurate = i2d 0\<rparr>,
      \<lparr>old = libm_cos E x, new = cos sc1c, accurate = i2d 0\<rparr>,
      \<lparr>old = fsub (i2d 1) (libm_cos E x), new = omc sc1c, accurate = i2d 0\<rparr>]"

definition checkSinCosOmcInPoint :: "env \<Rightarrow> dat \<Rightarrow> nat \<Rightarrow> mfloat_t \<Rightarrow> dat option" where
  "checkSinCosOmcInPoint E data pointInRange x =
     (case sncs1cs x of
        None \<Rightarrow> None
      | Some sc1c \<Rightarrow>
          Some (fold (check_func E pointInRange x (point_values E x sc1c)) [0..<FuncLimit] data))"

function testRange_loop :: "env \<Rightarrow> nat \<Rightarrow> mfloat_t \<Rightarrow> dat \<Rightarrow> (mfloat_t \<times> dat) option" where
  "testRange_loop E i x data =
     (if i < PointsInOneRange then
        (case checkSinCosOmcInPoint E data i x of
           None \<Rightarrow> None
         | Some data1 \<Rightarrow> testRange_loop E (i + 1) (nextafter x posInf) data1)
      else Some (x, data))"
  by pat_completeness auto
termination
  by (relation "measure (\<lambda>(E, i, x, data). PointsInOneRange - i)") auto

declare testRange_loop.simps [simp del]

definition testRange :: "env \<Rightarrow> dat \<Rightarrow> mfloat_t \<Rightarrow> dat option" where
  "testRange E data x =
     (case testRange_loop E 0 x
             (data\<lparr>funcData := set_limit (funcData data) (dat_i data) 0 x\<rparr>) of
        None \<Rightarrow> None
      | Some (x1, data1) \<Rightarrow>
          Some (data1\<lparr>funcData := set_limit (funcData data1) (dat_i data1) 1 x1\<rparr>))"

definition fourPi :: mfloat_t where
  "fourPi = lit 125663706143591729539 19"

definition step :: mfloat_t where
  "step = lit 3125 5"

text \<open>\<^verbatim>\<open>size = 2*(int)((fourPi + 0.5)/step + 0.5) + 1\<close>.\<close>

definition main_size :: "mint_t option" where
  "main_size =
     (case d2i (fadd (fdiv (fadd fourPi d_half) step) d_half) of
        None \<Rightarrow> None
      | Some k \<Rightarrow> Some (2 * k + 1))"

definition range_start :: "nat \<Rightarrow> mfloat_t" where
  "range_start i = fadd (fneg fourPi) (fmul step (i2d (int i)))"

text \<open>
  The loop of \<^verbatim>\<open>main\<close> over the ranges, \<^verbatim>\<open>for (; data.i < size; data.i++)\<close>. Its
  termination needs that the evaluation of a range leaves \<^verbatim>\<open>data.i\<close> alone.
\<close>

lemma check_func_dat_i: "dat_i (check_func E p x a i data) = dat_i data"
  by (simp add: check_func_def Let_def split: option.split)

lemma fold_check_func_dat_i: "dat_i (fold (check_func E p x a) is data) = dat_i data"
  by (induction "is" arbitrary: data) (simp_all add: check_func_dat_i)

lemma checkSinCosOmcInPoint_dat_i:
  "checkSinCosOmcInPoint E data p x = Some data1 \<Longrightarrow> dat_i data1 = dat_i data"
  by (auto simp: checkSinCosOmcInPoint_def fold_check_func_dat_i split: option.splits)

lemma testRange_loop_dat_i:
  "testRange_loop E i x data = Some (x1, data1) \<Longrightarrow> dat_i data1 = dat_i data"
proof (induction E i x data rule: testRange_loop.induct)
  case (1 E i x data)
  show ?case
  proof (cases "i < PointsInOneRange")
    case True
    with "1.prems" obtain d where d: "checkSinCosOmcInPoint E data i x = Some d"
      and r: "testRange_loop E (i + 1) (nextafter x posInf) d = Some (x1, data1)"
      by (subst (asm) testRange_loop.simps) (auto split: option.splits)
    from "1.IH" [OF True d r] checkSinCosOmcInPoint_dat_i [OF d] show ?thesis
      by simp
  next
    case False
    with "1.prems" show ?thesis
      by (subst (asm) testRange_loop.simps) simp
  qed
qed

lemma testRange_dat_i: "testRange E data x = Some data1 \<Longrightarrow> dat_i data1 = dat_i data"
  by (auto simp: testRange_def split: option.splits dest: testRange_loop_dat_i)

function main_loop :: "env \<Rightarrow> nat \<Rightarrow> dat \<Rightarrow> dat option" where
  "main_loop E sz data =
     (if dat_i data < sz then
        (case testRange E data (range_start (dat_i data)) of
           None \<Rightarrow> None
         | Some data1 \<Rightarrow> main_loop E sz (data1\<lparr>dat_i := dat_i data1 + 1\<rparr>))
      else Some data)"
  by pat_completeness auto
termination
  by (relation "measure (\<lambda>(E, sz, data). sz - dat_i data)")
     (auto dest: testRange_dat_i)

declare main_loop.simps [simp del]

text \<open>The sampling part of \<^verbatim>\<open>main\<close>, from the \<^verbatim>\<open>calloc\<close> to the end of the first loop.\<close>

definition main_sample :: "env \<Rightarrow> dat option" where
  "main_sample E =
     (case main_size of
        None \<Rightarrow> None
      | Some sz \<Rightarrow>
          main_loop E (nat (sint sz))
            \<lparr>funcData = replicate (nat (sint sz)) zero_Range, dat_i = 0,
             fricas_calls = [], stdout = []\<rparr>)"

section \<open>Aggregation\<close>

record microReport =
  count_m :: mint_t
  max_m :: int64
  maxScor :: mfloat_t
  mean2 :: mfloat_t

record rangeReport =
  limits :: "mfloat_t list"
  improvements :: microReport
  worsenings :: microReport
  mean1 :: mfloat_t

definition zero_microReport :: microReport where
  "zero_microReport = \<lparr>count_m = 0, max_m = 0, maxScor = 0, mean2 = 0\<rparr>"

definition zero_rangeReport :: rangeReport where
  "zero_rangeReport =
     \<lparr>limits = [0, 0], improvements = zero_microReport, worsenings = zero_microReport,
      mean1 = 0\<rparr>"

definition updateMicroReport :: "microReport \<Rightarrow> int64 \<Rightarrow> mfloat_t \<Rightarrow> microReport" where
  "updateMicroReport r iS fS =
     (let r1 = r\<lparr>count_m := count_m r + 1\<rparr>;
          r2 = r1\<lparr>mean2 := fadd (mean2 r1) (fmul fS fS)\<rparr>;
          r3 = (if (0 \<le> sint iS \<and> sint (max_m r2) < sint iS) \<or>
                   (sint iS \<le> 0 \<and> sint iS \<le> sint (max_m r2))
                then r2\<lparr>max_m := iS\<rparr> else r2)
      in if flt (copysign (maxScor r3) (i2d 1)) (copysign fS (i2d 1))
         then r3\<lparr>maxScor := fS\<rparr> else r3)"

text \<open>
  The body of the loop over the points of one range, for one function: \<open>exs\<close> is the flag
  \<^verbatim>\<open>exists\<close>, \<open>p\<close> the slice \<^verbatim>\<open>dataByFunction[fn]\<close>, whose last element is the report of
  the range once \<^verbatim>\<open>exists\<close> is set.
\<close>

definition score_point :: "funcVal \<Rightarrow> bool \<times> rangeReport list \<Rightarrow> bool \<times> rangeReport list" where
  "score_point v st =
     (case st of (exs, p) \<Rightarrow>
        if isNull v then (exs, p)
        else let s = scoresOf v in
          if iscor s = 0 then (exs, p)
          else let p1 = (if \<not> exs then p @ [zero_rangeReport] else p);
                   k = length p1 - 1;
                   r = p1 ! k;
                   r1 = (if 0 < sint (iscor s)
                         then r\<lparr>improvements :=
                                  updateMicroReport (improvements r) (iscor s) (fscor s)\<rparr>
                         else r\<lparr>worsenings :=
                                  updateMicroReport (worsenings r) (iscor s) (fscor s)\<rparr>)
               in (True, p1[k := r1\<lparr>mean1 := fadd (mean1 r1) (fscor s)\<rparr>]))"

text \<open>The block under \<^verbatim>\<open>if(exists)\<close>: the limits, the two quadratic means, the mean.\<close>

definition finish_range :: "env \<Rightarrow> Range \<Rightarrow> rangeReport \<Rightarrow> rangeReport" where
  "finish_range E R r =
     (let r1 = r\<lparr>limits := [range_limits R ! 0, range_limits R ! 1]\<rparr>;
          r2 = r1\<lparr>improvements := (improvements r1)\<lparr>mean2 :=
                 libm_sqrt E (fdiv (mean2 (improvements r1))
                                   (i2d (sint (count_m (improvements r1)))))\<rparr>\<rparr>;
          r3 = r2\<lparr>worsenings := (worsenings r2)\<lparr>mean2 :=
                 libm_sqrt E (fdiv (mean2 (worsenings r2))
                                   (i2d (sint (count_m (worsenings r2)))))\<rparr>\<rparr>
      in r3\<lparr>mean1 := fdiv (mean1 r3)
               (i2d (sint (count_m (improvements r3) + count_m (worsenings r3))))\<rparr>)"

definition score_range :: "nat \<Rightarrow> Range \<Rightarrow> rangeReport list \<Rightarrow> bool \<times> rangeReport list" where
  "score_range fn R p =
     fold (\<lambda>point. score_point (range_a R ! point ! fn)) [0..<PointsInOneRange] (False, p)"

definition report_range :: "env \<Rightarrow> nat \<Rightarrow> Range \<Rightarrow> rangeReport list \<Rightarrow> rangeReport list" where
  "report_range E fn R p =
     (case score_range fn R p of
        (exs, p1) \<Rightarrow>
          if exs then p1[length p1 - 1 := finish_range E R (p1 ! (length p1 - 1))] else p1)"

definition report_function :: "env \<Rightarrow> dat \<Rightarrow> nat \<Rightarrow> rangeReport list" where
  "report_function E data fn =
     fold (\<lambda>rn. report_range E fn (funcData data ! rn)) [0..<dat_i data] []"

definition main_report :: "env \<Rightarrow> dat \<Rightarrow> rangeReport list list" where
  "main_report E data = map (report_function E data) [0..<FuncLimit]"

section \<open>Facts about bit patterns\<close>

lemma unat_lt64: "unat (a :: 64 word) < 2 ^ 64"
  using unsigned_less [of a, where 'a = nat] by simp

lemma top_unat: "(a AND push_bit 63 1 \<noteq> 0) \<longleftrightarrow> 2 ^ 63 \<le> unat (a :: 64 word)"
proof -
  have "(a AND push_bit 63 1 \<noteq> 0) \<longleftrightarrow> bit a 63"
    by (simp add: bit_iff_and_push_bit_not_eq_0)
  also have "\<dots> \<longleftrightarrow> bit (unat a) 63"
    by (simp add: bit_unsigned_iff)
  also have "\<dots> \<longleftrightarrow> odd (unat a div 2 ^ 63)"
    by (simp add: bit_iff_odd)
  also have "\<dots> \<longleftrightarrow> 2 ^ 63 \<le> unat a"
  proof -
    have "unat a div 2 ^ 63 < 2"
      using unat_lt64 [of a] by (simp add: less_mult_imp_div_less)
    moreover have "unat a div 2 ^ 63 = 0 \<longleftrightarrow> unat a < 2 ^ 63"
      by (simp add: div_eq_0_iff)
    ultimately show ?thesis
      by (cases "unat a div 2 ^ 63 = 0") (auto simp: less_2_cases_iff)
  qed
  finally show ?thesis .
qed

lemma top_unat_num: "(a AND 0x8000000000000000 = 0) \<longleftrightarrow> unat (a :: 64 word) < 2 ^ 63"
  using top_unat [of a] by (auto simp: not_le)

lemma sign_bit_top: "sign_bit x \<longleftrightarrow> x AND 0x8000000000000000 \<noteq> 0"
  by (simp add: sign_bit_def top_unat_num not_less)

lemma unat_sub64:
  "unat (a - b :: 64 word) =
     (if unat b \<le> unat a then unat a - unat b else unat a + 2 ^ 64 - unat b)"
  by (simp add: unat_sub_if')

lemma unat_flip:
  "unat (x + 0x8000000000000000 :: 64 word) =
     (if unat x < 2 ^ 63 then unat x + 2 ^ 63 else unat x - 2 ^ 63)"
  using unat_lt64 [of x] by (simp add: unat_word_ariths mod_if)

section \<open>The distance \<^verbatim>\<open>ud\<close>\<close>

lemma feq_refl_iff: "feq x x \<longleftrightarrow> \<not> isnan x"
  by (simp add: feq_def)

lemma ud_nan: "isnan x \<or> isnan y \<Longrightarrow> ud x y = 0x7FFFFFFFFFFFFFFF"
  by (auto simp: ud_def feq_refl_iff mask_eq_exp_minus_1)

text \<open>Two patterns with equal sign bits are at the absolute value of their difference.\<close>

lemma ud_same_sign:
  assumes "feq x x" "feq y y" "x AND 0x8000000000000000 = y AND 0x8000000000000000"
  shows "ud x y = (if unat (x - y) < 2 ^ 63 then x - y else - (x - y))"
  using assms by (simp add: ud_def Let_def top_unat_num)

lemma abs_diff_sym:
  fixes x y :: "64 word"
  assumes "unat x < 2 ^ 63 \<longleftrightarrow> unat y < 2 ^ 63"
  shows "(if unat (x - y) < 2 ^ 63 then x - y else - (x - y)) =
         (if unat (y - x) < 2 ^ 63 then y - x else - (y - x))"
proof (cases "x = y")
  case True
  then show ?thesis by simp
next
  case False
  then have ne: "unat x \<noteq> unat y"
    by (simp add: word_unat_eq_iff)
  have "unat (x - y) < 2 ^ 63 \<longleftrightarrow> \<not> unat (y - x) < 2 ^ 63"
    using unat_lt64 [of x] unat_lt64 [of y] assms ne
    by (auto simp: unat_sub64 split: if_splits)
  then show ?thesis by simp
qed

text \<open>
  C2 (as the code has it). \<^verbatim>\<open>ud\<close> is symmetric: \<open>ud x y = ud y x\<close> for all doubles
  \<open>x\<close> and \<open>y\<close>. With a NaN both orders give the sentinel; with equal sign bits both give
  the absolute value of the difference of the patterns; with different sign bits both give
  the sum of the two magnitudes.
\<close>

theorem ud_symmetric: "ud x y = ud y x"
proof (cases "\<not> feq x x \<or> \<not> feq y y")
  case True
  then show ?thesis by (auto simp: ud_def)
next
  case False
  then have fx: "feq x x" and fy: "feq y y" by simp_all
  show ?thesis
  proof (cases "x AND 0x8000000000000000 = y AND 0x8000000000000000")
    case True
    have "(x AND 0x8000000000000000 = 0) = (y AND 0x8000000000000000 = 0)"
      using True by simp
    then have same: "unat x < 2 ^ 63 \<longleftrightarrow> unat y < 2 ^ 63"
      by (simp only: top_unat_num)
    have "ud x y = (if unat (x - y) < 2 ^ 63 then x - y else - (x - y))"
      using fx fy True by (rule ud_same_sign)
    moreover have "ud y x = (if unat (y - x) < 2 ^ 63 then y - x else - (y - x))"
      using fy fx True [symmetric] by (rule ud_same_sign)
    ultimately show ?thesis
      using abs_diff_sym [OF same] by (simp only:)
  next
    case diff: False
    then have "y AND 0x8000000000000000 \<noteq> x AND 0x8000000000000000"
      by simp
    then show ?thesis
      using False diff by (simp add: ud_def)
  qed
qed

theorem ud_symmetric_witness:
  "ud 0x3FF0000000000000 0xBFF0000000000000 = ud 0xBFF0000000000000 0x3FF0000000000000"
  using ud_symmetric [of "0x3FF0000000000000" "0xBFF0000000000000"] by simp

text \<open>
  C2 (as stated) fails: the distance from 1.0 (pattern \<open>0x3FF0000000000000\<close>) to 2.0
  (pattern \<open>0x4000000000000000\<close>) is \<open>2^52\<close> in both orders, not \<open>2^52\<close> and \<open>- 2^52\<close>.
\<close>

theorem ud_antisymmetry_counterexample:
  "sint (ud 0x3FF0000000000000 0x4000000000000000) \<noteq>
   - sint (ud 0x4000000000000000 0x3FF0000000000000)"
  by (simp add: ud_def feq_def isnan_def expo_def frac_def)

text \<open>
  C6. \<^verbatim>\<open>ud\<close> is 0 on identical arguments that are not NaN, and it is 0 between the two
  zeros (patterns \<open>0\<close> for \<open>0.0\<close> and \<open>0x8000000000000000\<close> for \<open>-0.0\<close>) in both orders.
\<close>

theorem ud_identical_zero:
  "(\<not> isnan x \<longrightarrow> ud x x = 0) \<and>
   ud 0 0x8000000000000000 = 0 \<and> ud 0x8000000000000000 0 = 0"
  by (simp add: ud_def feq_def isnan_def expo_def frac_def)

theorem ud_identical_zero_witness:
  "\<not> isnan 0x3FF0000000000000 \<and> ud 0x3FF0000000000000 0x3FF0000000000000 = 0"
  using ud_identical_zero [of "0x3FF0000000000000"]
  by (simp add: isnan_def expo_def frac_def)

section \<open>Evaluation of the arithmetic\<close>

text \<open>
  The definitions of the arithmetic are executable; a concrete operation is evaluated by
  rewriting with them, the bound value of each \<open>let\<close> first.
\<close>

lemmas fp_eval = sign_bit_def expo_def frac_def isnan_def isinf_def mant_def exp2_def sval_def
  nbits.simps pack_def round_pack_def round_quot_def dnan_def quiet_def fneg_def fadd_def fsub_def
  fmul_def fdiv_def fkey_def feq_def flt_def i2d_def lit_def trunc_mag_def d2i_def

lemma i2d_0: "i2d 0 = 0"
  by (simp add: fp_eval cong: let_weak_cong)

lemma i2d_1: "i2d 1 = 0x3FF0000000000000"
  by (simp add: fp_eval cong: let_weak_cong)

lemma d_half_eval: "d_half = 0x3FE0000000000000"
  by (simp add: d_half_def fp_eval cong: let_weak_cong)

lemma fourOverPi_eval: "fourOverPi = 0x3FF45F306DC9C883"
  by (simp add: fourOverPi_def fp_eval cong: let_weak_cong)

lemma DP1_eval: "DP1 = 0x3FE921FB40000000"
  by (simp add: DP1_def fp_eval cong: let_weak_cong)

lemma DP2_eval: "DP2 = 0x3E64442D00000000"
  by (simp add: DP2_def fp_eval cong: let_weak_cong)

lemma DP3_eval: "DP3 = 0x3CE8469898CC5170"
  by (simp add: DP3_def fp_eval cong: let_weak_cong)

lemma sc_eval_1:
  "lit 158962301576546568060 30 = 0x3DE5D8FD1FD19CCD"
  "fneg (lit 250507477628578072866 28) = 0xBE5AE5E5A9291F5D"
  "lit 275573136213857245213 26 = 0x3EC71DE3567D48A1"
  by (simp_all add: fp_eval cong: let_weak_cong)

lemma sc_eval_2:
  "fneg (lit 198412698295895385996 24) = 0xBF2A01A019BFDF03"
  "lit 833333333332211858878 23 = 0x3F8111111110F7D0"
  "fneg (lit 166666666666666307295 21) = 0xBFC5555555555548"
  by (simp_all add: fp_eval cong: let_weak_cong)

lemma sc_eval:
  "sc = [0x3DE5D8FD1FD19CCD, 0xBE5AE5E5A9291F5D, 0x3EC71DE3567D48A1,
         0xBF2A01A019BFDF03, 0x3F8111111110F7D0, 0xBFC5555555555548]"
  by (simp add: sc_def sc_eval_1 sc_eval_2)

lemma cc_eval_1:
  "fneg (lit 113585365213876817300 31) = 0xBDA8FA49A0861A9B"
  "lit 208757008419747316778 29 = 0x3E21EE9D7B4E3F05"
  "fneg (lit 275573141792967388112 27) = 0xBE927E4F7EAC4BC6"
  by (simp_all add: fp_eval cong: let_weak_cong)

lemma cc_eval_2:
  "lit 248015872888517045348 25 = 0x3EFA01A019C844F5"
  "fneg (lit 138888888888730564116 23) = 0xBF56C16C16C14F91"
  "lit 416666666666665929218 22 = 0x3FA555555555554B"
  by (simp_all add: fp_eval cong: let_weak_cong)

lemma cc_eval:
  "cc = [0xBDA8FA49A0861A9B, 0x3E21EE9D7B4E3F05, 0xBE927E4F7EAC4BC6,
         0x3EFA01A019C844F5, 0xBF56C16C16C14F91, 0x3FA555555555554B]"
  by (simp add: cc_def cc_eval_1 cc_eval_2)

lemmas kernel_consts = i2d_0 i2d_1 d_half_eval fourOverPi_eval DP1_eval DP2_eval DP3_eval
  sc_eval cc_eval

section \<open>Sign change and comparison with zero\<close>

lemma fneg_fneg: "fneg (fneg x) = x"
  by (simp add: fneg_def)

lemma unat_fneg:
  "unat (fneg x) = (if unat x < 2 ^ 63 then unat x + 2 ^ 63 else unat x - 2 ^ 63)"
  unfolding fneg_def by (rule unat_flip)

lemma shift_div:
  "(n + 9223372036854775808) div 4503599627370496 mod 2048 =
   n div 4503599627370496 mod (2048 :: nat)"
proof -
  have "(n + 4503599627370496 * 2048) div 4503599627370496 = n div 4503599627370496 + 2048"
    by (rule trans [OF div_mult_self2]) simp_all
  then show ?thesis by simp
qed

lemma shift_mod52:
  "(n + 9223372036854775808) mod 4503599627370496 = n mod (4503599627370496 :: nat)"
proof -
  have "(n + 4503599627370496 * 2048) mod 4503599627370496 = n mod 4503599627370496"
    by (rule mod_mult_self2)
  then show ?thesis by simp
qed

lemma shift_mod63:
  "(n + 9223372036854775808) mod 9223372036854775808 = n mod (9223372036854775808 :: nat)"
  by simp

lemma unat_fneg_cases:
  obtains "unat (fneg x) = unat x + 9223372036854775808" "unat x < 9223372036854775808"
  | "unat x = unat (fneg x) + 9223372036854775808" "9223372036854775808 \<le> unat x"
  using unat_fneg [of x] by (cases "unat x < 9223372036854775808") simp_all

lemma expo_fneg: "expo (fneg x) = expo x"
  by (cases x rule: unat_fneg_cases) (simp_all add: expo_def shift_div)

lemma frac_fneg: "frac (fneg x) = frac x"
  by (cases x rule: unat_fneg_cases) (simp_all add: frac_def shift_mod52)

lemma sign_bit_fneg: "sign_bit (fneg x) \<longleftrightarrow> \<not> sign_bit x"
  using unat_lt64 [of x] by (auto simp: sign_bit_def unat_fneg)

lemma isnan_fneg: "isnan (fneg x) = isnan x"
  by (simp add: isnan_def expo_fneg frac_fneg)

lemma isinf_fneg: "isinf (fneg x) = isinf x"
  by (simp add: isinf_def expo_fneg frac_fneg)

lemma magnitude_fneg: "unat (fneg x) mod 9223372036854775808 = unat x mod 9223372036854775808"
  by (cases x rule: unat_fneg_cases) (simp_all only: shift_mod63)

lemma fkey_fneg: "fkey (fneg x) = - fkey x"
  by (simp add: fkey_def sign_bit_fneg magnitude_fneg)

lemma feq_zero:
  "feq x (i2d 0) \<longleftrightarrow> \<not> isnan x \<and> fkey x = 0"
  "feq x 0 \<longleftrightarrow> \<not> isnan x \<and> fkey x = 0"
  by (simp_all add: i2d_0 feq_def isnan_def expo_def frac_def fkey_def sign_bit_def)

lemma flt_zero:
  "flt x (i2d 0) \<longleftrightarrow> \<not> isnan x \<and> fkey x < 0"
  "flt x 0 \<longleftrightarrow> \<not> isnan x \<and> fkey x < 0"
  by (simp_all add: i2d_0 flt_def isnan_def expo_def frac_def fkey_def sign_bit_def)

section \<open>The kernel at concrete arguments\<close>

text \<open>
  The operations \<^verbatim>\<open>sncs1cs\<close> performs at \<open>x = 4.0\<close> (pattern \<open>0x4010000000000000\<close>), in
  the order of the source: the product with \<open>fourOverPi\<close> and the octant (\<open>j = 5\<close>, moved
  to 6, so \<open>y = 6.0\<close>), the three-step reduction, the two polynomials, and the assembly
  of the triple in the branch \<^verbatim>\<open>j == 2\<close>.
\<close>

lemma sncs1cs_4_ops_1:
  "\<not> feq 0x4010000000000000 0"
  "\<not> isnan 0x4010000000000000"
  "\<not> isinf 0x4010000000000000"
  "\<not> flt 0x4010000000000000 0"
  by (simp_all add: fp_eval cong: let_weak_cong)

lemma sncs1cs_4_ops_2:
  "fmul 0x4010000000000000 0x3FF45F306DC9C883 = 0x40145F306DC9C883"
  "d2i 0x40145F306DC9C883 = Some 0x5"
  "i2d 5 = 0x4014000000000000"
  "fadd 0x4014000000000000 0x3FF0000000000000 = 0x4018000000000000"
  by (simp_all add: fp_eval cong: let_weak_cong)

lemma sncs1cs_4_ops_3:
  "fmul 0x4018000000000000 0x3FE921FB40000000 = 0x4012D97C70000000"
  "fsub 0x4010000000000000 0x4012D97C70000000 = 0xBFE6CBE380000000"
  "fmul 0x4018000000000000 0x3E64442D00000000 = 0x3E8E664380000000"
  "fsub 0xBFE6CBE380000000 0x3E8E664380000000 = 0xBFE6CBE3F9990E00"
  by (simp_all add: fp_eval cong: let_weak_cong)

lemma sncs1cs_4_ops_4:
  "fmul 0x4018000000000000 0x3CE8469898CC5170 = 0x3D1234F272993D14"
  "fsub 0xBFE6CBE3F9990E00 0x3D1234F272993D14 = 0xBFE6CBE3F9990E92"
  "fmul 0xBFE6CBE3F9990E92 0xBFE6CBE3F9990E92 = 0x3FE03D6C91F95EB8"
  "fmul 0x3FE03D6C91F95EB8 0xBFE6CBE3F9990E92 = 0xBFD72367FEFE88E9"
  by (simp_all add: fp_eval cong: let_weak_cong)

lemma sncs1cs_4_ops_5:
  "fmul 0x3DE5D8FD1FD19CCD 0x3FE03D6C91F95EB8 = 0x3DD62CDCA4DA7AE3"
  "fadd 0x3DD62CDCA4DA7AE3 0xBE5AE5E5A9291F5D = 0xBE5ACFB8CC8444E2"
  "fmul 0xBE5ACFB8CC8444E2 0x3FE03D6C91F95EB8 = 0xBE4B36A6ABCBBBC7"
  "fadd 0xBE4B36A6ABCBBBC7 0x3EC71DE3567D48A1 = 0x3EC702ACAFD17CE5"
  by (simp_all add: fp_eval cong: let_weak_cong)

lemma sncs1cs_4_ops_6:
  "fmul 0x3EC702ACAFD17CE5 0x3FE03D6C91F95EB8 = 0x3EB75B03062C4D28"
  "fadd 0x3EB75B03062C4D28 0xBF2A01A019BFDF03 = 0xBF29D2EA13B38669"
  "fmul 0xBF29D2EA13B38669 0x3FE03D6C91F95EB8 = 0xBF1A360D6B648C63"
  "fadd 0xBF1A360D6B648C63 0x3F8111111110F7D0 = 0x3F80DCA4F63A2EB7"
  by (simp_all add: fp_eval cong: let_weak_cong)

lemma sncs1cs_4_ops_7:
  "fmul 0x3F80DCA4F63A2EB7 0x3FE03D6C91F95EB8 = 0x3F711D609654CF23"
  "fadd 0x3F711D609654CF23 0xBFC5555555555548 = 0xBFC4CC6A50A2AECF"
  "fmul 0xBFD72367FEFE88E9 0xBFC4CC6A50A2AECF = 0x3FAE13DF2BDE9D0F"
  "fadd 0xBFE6CBE3F9990E92 0x3FAE13DF2BDE9D0F = 0xBFE4EAA606DB24C1"
  by (simp_all add: fp_eval cong: let_weak_cong)

lemma sncs1cs_4_ops_8:
  "fmul 0x3FE0000000000000 0x3FE03D6C91F95EB8 = 0x3FD03D6C91F95EB8"
  "fmul 0x3FE03D6C91F95EB8 0x3FE03D6C91F95EB8 = 0x3FD07BC4F2AC82BD"
  "fmul 0xBDA8FA49A0861A9B 0x3FE03D6C91F95EB8 = 0xBD995A2D568C9BA0"
  "fadd 0xBD995A2D568C9BA0 0x3E21EE9D7B4E3F05 = 0x3E21E1F064A2F8B7"
  by (simp_all add: fp_eval cong: let_weak_cong)

lemma sncs1cs_4_ops_9:
  "fmul 0x3E21E1F064A2F8B7 0x3FE03D6C91F95EB8 = 0x3E122697215F95F1"
  "fadd 0x3E122697215F95F1 0xBE927E4F7EAC4BC6 = 0xBE926C28E78AEC30"
  "fmul 0xBE926C28E78AEC30 0x3FE03D6C91F95EB8 = 0xBE82B2E245A51BBC"
  "fadd 0xBE82B2E245A51BBC 0x3EFA01A019C844F5 = 0x3EF9DC3A553CFABE"
  by (simp_all add: fp_eval cong: let_weak_cong)

lemma sncs1cs_4_ops_10:
  "fmul 0x3EF9DC3A553CFABE 0x3FE03D6C91F95EB8 = 0x3EEA3F816E1A8F9D"
  "fadd 0x3EEA3F816E1A8F9D 0xBF56C16C16C14F91 = 0xBF568CED13E51A72"
  "fmul 0xBF568CED13E51A72 0x3FE03D6C91F95EB8 = 0xBF46E37F60BDD55E"
  "fadd 0xBF46E37F60BDD55E 0x3FA555555555554B = 0x3FA4F9C757D25DF6"
  by (simp_all add: fp_eval cong: let_weak_cong)

lemma sncs1cs_4_ops_11:
  "fmul 0x3FD07BC4F2AC82BD 0x3FA4F9C757D25DF6 = 0x3F859C09B633828E"
  "fsub 0x3FD03D6C91F95EB8 0x3F859C09B633828E = 0x3FCF2118888F8547"
  "fsub 0x3FF0000000000000 0x3FCF2118888F8547 = 0x3FE837B9DDDC1EAE"
  "fsub 0x3FF0000000000000 0xBFE4EAA606DB24C1 = 0x3FFA7553036D9260"
  by (simp_all add: fp_eval cong: let_weak_cong)

lemma sncs1cs_4_ops_12:
  "fadd 0xBFE4EAA606DB24C1 0x3FFA7553036D9260 = 0x3FEFFFFFFFFFFFFF"
  by (simp add: fp_eval cong: let_weak_cong)

lemmas sncs1cs_4_ops = sncs1cs_4_ops_1 sncs1cs_4_ops_2 sncs1cs_4_ops_3 sncs1cs_4_ops_4 sncs1cs_4_ops_5 sncs1cs_4_ops_6 sncs1cs_4_ops_7 sncs1cs_4_ops_8 sncs1cs_4_ops_9 sncs1cs_4_ops_10 sncs1cs_4_ops_11 sncs1cs_4_ops_12

lemma sncs1cs_4:
  "sncs1cs 0x4010000000000000 =
     Some \<lparr>sin = 0xBFE837B9DDDC1EAE, cos = 0xBFE4EAA606DB24C1, omc = 0x3FFA7553036D9260\<rparr>"
  by (simp add: sncs1cs_def sncs1cs_reduce_def octant_def neg_sin_def fneg_def kernel_consts
        sncs1cs_4_ops cong: let_weak_cong)

text \<open>At \<open>x = 2^31\<close> the product with \<open>fourOverPi\<close> is above \<open>2^31\<close>.\<close>

lemma sncs1cs_2p31_ops:
  "\<not> feq 0x41E0000000000000 0"
  "\<not> isnan 0x41E0000000000000"
  "\<not> isinf 0x41E0000000000000"
  "\<not> flt 0x41E0000000000000 0"
  "fmul 0x41E0000000000000 0x3FF45F306DC9C883 = 0x41E45F306DC9C883"
  "d2i 0x41E45F306DC9C883 = None"
  by (simp_all add: fp_eval cong: let_weak_cong)


section \<open>Properties of the kernel\<close>

lemma neg_sin_neg_sin: "neg_sin (neg_sin r) = r"
  by (simp add: neg_sin_def fneg_fneg)

lemma reduce_neg:
  "sncs1cs_reduce (- 1) y = map_option neg_sin (sncs1cs_reduce 1 y)"
  "sncs1cs_reduce 1 y = map_option neg_sin (sncs1cs_reduce (- 1) y)"
  by (simp_all add: sncs1cs_reduce_def Let_def neg_sin_neg_sin split: option.split prod.split)

lemma fsub_1_1: "fsub 0x3FF0000000000000 0x3FF0000000000000 = 0"
  by (simp add: fp_eval cong: let_weak_cong)

lemma reduce_complement:
  assumes "sncs1cs_reduce s y = Some r"
  shows "omc r = fsub (i2d 1) (cos r) \<or> cos r = fsub (i2d 1) (omc r)"
  using assms
  by (auto simp: sncs1cs_reduce_def Let_def neg_sin_def split: option.splits prod.splits if_splits)

text \<open>
  C5. Special values of \<^verbatim>\<open>sncs1cs\<close>: at \<open>+0\<close> (pattern \<open>0\<close>) and \<open>-0\<close> (pattern
  \<open>0x8000000000000000\<close>) the triple is \<open>(x, 1, 0)\<close>, with \<open>1.0\<close> the pattern
  \<open>0x3FF0000000000000\<close>, so the sine keeps the sign of the zero; at a NaN all three
  components are the argument itself, a NaN; at \<open>+Inf\<close> (\<open>0x7FF0000000000000\<close>) and \<open>-Inf\<close>
  (\<open>0xFFF0000000000000\<close>) all three components are the result of \<^verbatim>\<open>x - x\<close>, the NaN \<open>dnan\<close>.
\<close>

theorem sncs1cs_special_values:
  "sncs1cs 0 = Some \<lparr>sin = 0, cos = 0x3FF0000000000000, omc = 0\<rparr> \<and>
   sncs1cs 0x8000000000000000 =
     Some \<lparr>sin = 0x8000000000000000, cos = 0x3FF0000000000000, omc = 0\<rparr> \<and>
   (isnan x \<longrightarrow> sncs1cs x = Some \<lparr>sin = x, cos = x, omc = x\<rparr>) \<and>
   sncs1cs 0x7FF0000000000000 = Some \<lparr>sin = dnan, cos = dnan, omc = dnan\<rparr> \<and>
   sncs1cs 0xFFF0000000000000 = Some \<lparr>sin = dnan, cos = dnan, omc = dnan\<rparr> \<and>
   isnan dnan"
proof -
  have z: "sncs1cs 0 = Some \<lparr>sin = 0, cos = 0x3FF0000000000000, omc = 0\<rparr>"
    by (simp add: sncs1cs_def feq_zero i2d_0 i2d_1 isnan_def expo_def frac_def fkey_def)
  have nz: "sncs1cs 0x8000000000000000 =
      Some \<lparr>sin = 0x8000000000000000, cos = 0x3FF0000000000000, omc = 0\<rparr>"
    by (simp add: sncs1cs_def feq_zero i2d_0 i2d_1 isnan_def expo_def frac_def fkey_def)
  have n: "isnan x \<longrightarrow> sncs1cs x = Some \<lparr>sin = x, cos = x, omc = x\<rparr>"
    by (simp add: sncs1cs_def feq_zero)
  have pi: "sncs1cs 0x7FF0000000000000 = Some \<lparr>sin = dnan, cos = dnan, omc = dnan\<rparr>"
    by (simp add: sncs1cs_def feq_zero fsub_def fadd_def fneg_def isnan_def isinf_def
          expo_def frac_def fkey_def sign_bit_def)
  have ni: "sncs1cs 0xFFF0000000000000 = Some \<lparr>sin = dnan, cos = dnan, omc = dnan\<rparr>"
    by (simp add: sncs1cs_def feq_zero fsub_def fadd_def fneg_def isnan_def isinf_def
          expo_def frac_def fkey_def sign_bit_def)
  have d: "isnan dnan"
    by (simp add: dnan_def isnan_def expo_def frac_def)
  from z nz n pi ni d show ?thesis
    by (intro conjI)
qed

theorem sncs1cs_special_values_witness:
  "isnan 0x7FF8000000000001 \<and>
   sncs1cs 0x7FF8000000000001 =
     Some \<lparr>sin = 0x7FF8000000000001, cos = 0x7FF8000000000001, omc = 0x7FF8000000000001\<rparr>"
proof -
  have "isnan 0x7FF8000000000001"
    by (simp add: isnan_def expo_def frac_def)
  then show ?thesis
    using sncs1cs_special_values [of "0x7FF8000000000001"] by simp
qed

text \<open>
  C7 (as the code has it). For every double \<open>x\<close> that is neither a NaN nor an infinity,
  \<^verbatim>\<open>sncs1cs(-x)\<close> is \<^verbatim>\<open>sncs1cs(x)\<close> with the sine negated and the cosine and the
  one-minus-cosine unchanged, pattern for pattern (and \<^verbatim>\<open>sncs1cs(-x)\<close> has a result
  exactly when \<^verbatim>\<open>sncs1cs(x)\<close> has one).
\<close>

theorem sncs1cs_odd_even:
  assumes "\<not> isnan x" "\<not> isinf x"
  shows "sncs1cs (fneg x) = map_option neg_sin (sncs1cs x)"
proof -
  consider "fkey x = 0" | "fkey x < 0" | "0 < fkey x"
    by linarith
  then show ?thesis
  proof cases
    case 1
    then show ?thesis
      using assms by (simp add: sncs1cs_def feq_zero isnan_fneg fkey_fneg neg_sin_def)
  next
    case 2
    then show ?thesis
      using assms reduce_neg(2) [of "fneg x"]
      by (simp add: sncs1cs_def feq_zero flt_zero isnan_fneg isinf_fneg fkey_fneg)
  next
    case 3
    then show ?thesis
      using assms reduce_neg(1) [of x]
      by (simp add: sncs1cs_def feq_zero flt_zero isnan_fneg isinf_fneg fkey_fneg fneg_fneg)
  qed
qed

theorem sncs1cs_odd_even_witness:
  "\<not> isnan 0x4010000000000000 \<and> \<not> isinf 0x4010000000000000 \<and>
   sncs1cs 0xC010000000000000 =
     Some \<lparr>sin = 0x3FE837B9DDDC1EAE, cos = 0xBFE4EAA606DB24C1, omc = 0x3FFA7553036D9260\<rparr>"
proof -
  have f: "\<not> isnan 0x4010000000000000" "\<not> isinf 0x4010000000000000"
    by (simp_all add: isnan_def isinf_def expo_def frac_def)
  from sncs1cs_odd_even [OF f] f show ?thesis
    by (simp add: sncs1cs_4 fneg_def neg_sin_def)
qed

text \<open>
  C7 (as stated, for every double) fails at a NaN: \<^verbatim>\<open>sncs1cs\<close> returns the argument in
  all three components, so the cosine of \<open>-x\<close> is \<open>-x\<close>, whose pattern differs from that
  of \<open>x\<close> in the sign bit (and no NaN compares equal to anything).
\<close>

theorem sncs1cs_even_counterexample:
  "sncs1cs 0x7FF8000000000000 =
     Some \<lparr>sin = 0x7FF8000000000000, cos = 0x7FF8000000000000, omc = 0x7FF8000000000000\<rparr> \<and>
   sncs1cs (fneg 0x7FF8000000000000) =
     Some \<lparr>sin = 0xFFF8000000000000, cos = 0xFFF8000000000000, omc = 0xFFF8000000000000\<rparr> \<and>
   \<not> feq 0xFFF8000000000000 0x7FF8000000000000"
  by (simp add: sncs1cs_def feq_def fneg_def isnan_def i2d_0 expo_def frac_def)

text \<open>
  C1 (as the code has it). For every double \<open>x\<close> that is neither a NaN nor an infinity and
  on which \<^verbatim>\<open>sncs1cs\<close> has a result, the cosine and the one-minus-cosine of the triple
  are complements up to one rounding: \<open>omc\<close> is the double difference \<open>1 - cos\<close>, or \<open>cos\<close>
  is the double difference \<open>1 - omc\<close>.
\<close>

theorem sncs1cs_complement:
  assumes "sncs1cs x = Some r" "\<not> isnan x" "\<not> isinf x"
  shows "omc r = fsub (i2d 1) (cos r) \<or> cos r = fsub (i2d 1) (omc r)"
proof (cases "feq x (i2d 0)")
  case True
  with assms(1) have "cos r = i2d 1" "omc r = i2d 0"
    by (auto simp: sncs1cs_def)
  then show ?thesis
    by (simp add: i2d_0 i2d_1 fsub_1_1)
next
  case False
  with assms have "sncs1cs_reduce (- 1) (fneg x) = Some r \<or> sncs1cs_reduce 1 x = Some r"
    by (auto simp: sncs1cs_def split: if_splits)
  then show ?thesis
    using reduce_complement by blast
qed


theorem sncs1cs_complement_witness:
  "\<not> isnan 0x4010000000000000 \<and> \<not> isinf 0x4010000000000000 \<and>
   (0x3FFA7553036D9260 = fsub (i2d 1) 0xBFE4EAA606DB24C1 \<or>
    0xBFE4EAA606DB24C1 = fsub (i2d 1) 0x3FFA7553036D9260)"
proof -
  have f: "\<not> isnan 0x4010000000000000" "\<not> isinf 0x4010000000000000"
    by (simp_all add: isnan_def isinf_def expo_def frac_def)
  from sncs1cs_complement [OF sncs1cs_4 f] f show ?thesis
    by simp
qed

text \<open>
  C1 (as stated) fails: at \<open>x = 4.0\<close> the triple has \<open>cos = 0xBFE4EAA606DB24C1\<close> and
  \<open>omc = 0x3FFA7553036D9260\<close>, and their double sum is \<open>0x3FEFFFFFFFFFFFFF\<close>, the double
  below \<open>1.0 = 0x3FF0000000000000\<close>.
\<close>

theorem cos_plus_omc_counterexample:
  "sncs1cs 0x4010000000000000 =
     Some \<lparr>sin = 0xBFE837B9DDDC1EAE, cos = 0xBFE4EAA606DB24C1, omc = 0x3FFA7553036D9260\<rparr> \<and>
   fadd 0xBFE4EAA606DB24C1 0x3FFA7553036D9260 = 0x3FEFFFFFFFFFFFFF \<and>
   i2d 1 = 0x3FF0000000000000"
  by (simp add: sncs1cs_4 sncs1cs_4_ops i2d_1)

lemma int_max_odd: "(j AND 1 \<noteq> 0 \<and> sint j = 2 ^ 31 - 1) \<longleftrightarrow> j = (0x7FFFFFFF :: 32 word)"
proof
  assume "j AND 1 \<noteq> 0 \<and> sint j = 2 ^ 31 - 1"
  then have "sint j = sint (0x7FFFFFFF :: 32 word)" by simp
  then show "j = 0x7FFFFFFF" by (simp only: signed_word_eqI)
next
  assume "j = 0x7FFFFFFF"
  then show "j AND 1 \<noteq> 0 \<and> sint j = 2 ^ 31 - 1" by simp
qed

lemma octant_defined:
  "octant y \<noteq> None \<longleftrightarrow> (\<exists>j. d2i (fmul y fourOverPi) = Some j \<and> j \<noteq> 0x7FFFFFFF)"
  using int_max_odd by (auto simp: octant_def Let_def split: option.splits)

lemma reduce_defined: "sncs1cs_reduce s y \<noteq> None \<longleftrightarrow> octant y \<noteq> None"
  by (auto simp: sncs1cs_reduce_def Let_def split: option.splits prod.splits)

lemma reduce_defined_ex:
  "(\<exists>r. sncs1cs_reduce s y = Some r) \<longleftrightarrow>
     (\<exists>j. d2i (fmul y fourOverPi) = Some j \<and> j \<noteq> 0x7FFFFFFF)"
  using reduce_defined [of s y] octant_defined [of y] by auto

text \<open>
  C3 (as the code has it). \<^verbatim>\<open>sncs1cs\<close> has a result exactly for a zero, a NaN, an infinity,
  and a finite \<open>x\<close> for which the conversion \<^verbatim>\<open>(mint_t)(x * fourOverPi)\<close> of the product
  with the absolute value is defined and yields less than \<open>INT_MAX = 0x7FFFFFFF\<close>.
\<close>

theorem sncs1cs_defined_iff:
  "sncs1cs x \<noteq> None \<longleftrightarrow>
     feq x (i2d 0) \<or> isnan x \<or> isinf x \<or>
     (\<exists>j. d2i (fmul (if flt x (i2d 0) then fneg x else x) fourOverPi) = Some j \<and> j \<noteq> 0x7FFFFFFF)"
  by (simp add: sncs1cs_def reduce_defined_ex)


theorem sncs1cs_defined_iff_witness:
  "sncs1cs 0x4010000000000000 \<noteq> None \<and>
   d2i (fmul 0x4010000000000000 fourOverPi) = Some 5"
  using sncs1cs_defined_iff [of "0x4010000000000000"]
  by (simp add: sncs1cs_4 sncs1cs_4_ops kernel_consts)

text \<open>
  C3 (as stated) fails: at \<open>x = 2^31\<close> (pattern \<open>0x41E0000000000000\<close>) the product
  \<open>x * fourOverPi\<close> is about \<open>2.7 * 10^9\<close>, outside the range of \<^verbatim>\<open>mint_t\<close>, and the
  conversion has no defined result.
\<close>

theorem sncs1cs_total_counterexample: "sncs1cs 0x41E0000000000000 = None"
  by (simp add: sncs1cs_def sncs1cs_reduce_def octant_def kernel_consts sncs1cs_2p31_ops)

end
